theory Spec2Isabelle
  imports Complex_Main "HOL-Library.Word" "HOL-Library.Sublist"
begin

section \<open>Strings of the scraper\<close>

text \<open>
  A string of the scraper is a sequence of UTF-16 code units. String literals of the
  source are ASCII apart from the three currency glyphs of \<open>parseNumeric\<close>, which are
  written by their code units.
\<close>

type_synonym jschar = "16 word"
type_synonym jsstring = "jschar list"

definition js :: "string \<Rightarrow> jsstring" where
  "js s = map (\<lambda>c. of_nat (of_char c)) s"

text \<open>
  \<open>String.prototype.trim\<close> removes the code units of WhiteSpace and LineTerminator
  from both ends; \<open>parseFloat\<close> skips the same set at the front.
\<close>

definition isWhiteSpace :: "jschar \<Rightarrow> bool" where
  "isWhiteSpace c \<longleftrightarrow>
     c = 0x09 \<or> c = 0x0A \<or> c = 0x0B \<or> c = 0x0C \<or> c = 0x0D \<or> c = 0x20 \<or>
     c = 0xA0 \<or> c = 0x1680 \<or> (0x2000 \<le> c \<and> c \<le> 0x200A) \<or>
     c = 0x2028 \<or> c = 0x2029 \<or> c = 0x202F \<or> c = 0x205F \<or> c = 0x3000 \<or> c = 0xFEFF"

definition trim :: "jsstring \<Rightarrow> jsstring" where
  "trim s = rev (dropWhile isWhiteSpace (rev (dropWhile isWhiteSpace s)))"

text \<open>The class \<open>\d\<close> of a regular expression without flags: the ten ASCII digits.\<close>

definition isDigit :: "jschar \<Rightarrow> bool" where
  "isDigit c \<longleftrightarrow> 0x30 \<le> c \<and> c \<le> 0x39"

text \<open>The class \<open>\w\<close>: ASCII letters, digits and the underscore.\<close>

definition isWordChar :: "jschar \<Rightarrow> bool" where
  "isWordChar c \<longleftrightarrow>
     (0x41 \<le> c \<and> c \<le> 0x5A) \<or> (0x61 \<le> c \<and> c \<le> 0x7A) \<or> isDigit c \<or> c = 0x5F"

text \<open>
  \<open>toLowerCase\<close>. The scraper lowers a text only to search it for a word of ASCII
  letters, so what matters is where the lowered text has ASCII letters: in the place of
  the letters A to Z, of the dotted capital I (U+0130, lowered to \<open>i\<close> and a combining
  dot) and of the Kelvin sign (U+212A, lowered to \<open>k\<close>). The Unicode case table of the
  runtime is not part of the repository; every other code unit is left as it is, since
  the runtime lowers it, if at all, to code units outside ASCII.
\<close>

definition lowerUnit :: "jschar \<Rightarrow> jsstring" where
  "lowerUnit c =
     (if 0x41 \<le> c \<and> c \<le> 0x5A then [c + 0x20]
      else if c = 0x130 then [0x69, 0x307]
      else if c = 0x212A then [0x6B]
      else [c])"

definition toLowerCase :: "jsstring \<Rightarrow> jsstring" where
  "toLowerCase s = concat (map lowerUnit s)"

fun startsWith :: "jsstring \<Rightarrow> jsstring \<Rightarrow> bool" where
  "startsWith s [] = True"
| "startsWith [] (p # ps) = False"
| "startsWith (c # cs) (p # ps) = (c = p \<and> startsWith cs ps)"

text \<open>\<open>String.prototype.includes\<close>: the search string occurs at some position.\<close>

fun includes_str :: "jsstring \<Rightarrow> jsstring \<Rightarrow> bool" where
  "includes_str [] p = (p = [])"
| "includes_str (c # cs) p = (startsWith (c # cs) p \<or> includes_str cs p)"

section \<open>Numbers and \<open>parseFloat\<close>\<close>

text \<open>
  A number of the scraper is a double. \<open>Num q\<close> stands for the double nearest to the
  rational \<open>q\<close>, for \<open>q\<close> within the range of the doubles; the rounding of such a \<open>q\<close>
  to 53 bits is the one thing about doubles that is not modelled. The negative zero, the
  two infinities and \<open>NaN\<close> are values of their own.
\<close>

datatype number = Num rat | NegZero | PosInfinity | NegInfinity | NaN

definition isNaN :: "number \<Rightarrow> bool" where
  "isNaN num \<longleftrightarrow> num = NaN"

text \<open>
  The two ends of the range of the doubles, where rounding is to nearest with ties to
  even. A magnitude from \<open>overflowFrom\<close> on, half a step above the largest double,
  overflows to an infinity; a magnitude up to \<open>zeroUpTo\<close>, half the smallest double,
  is a zero.
\<close>

definition overflowFrom :: rat where
  "overflowFrom = 2 ^ 1024 - 2 ^ 970"

definition zeroUpTo :: rat where
  "zeroUpTo = 1 / 2 ^ 1075"

text \<open>The two bounds as numerals, for evaluation.\<close>

lemma overflowFrom_code [code]:
  "overflowFrom = 179769313486231580793728971405303415079934132710037826936173778980444968292764750946649017977587207096330286416692887910946555547851940402630657488671505820681908902000708383676273854845817711531764475730270069855571366959622842914819860834936475292719074168444365510704342711559699508093042880177904174497792"
  by (simp add: overflowFrom_def)

lemma zeroUpTo_code [code]:
  "zeroUpTo = 1 / 404804506614621236704990693437834614099113299528284236713802716054860679135990693783920767402874248990374155728633623822779617474771586953734026799881477019843034848553132722728933815484186432682479535356945490137124014966849385397236206711298319112681620113024717539104666829230461005064372655017292012526615415482186989568"
  by (simp add: zeroUpTo_def)

text \<open>The double of a magnitude with a sign.\<close>

definition toDouble :: "bool \<Rightarrow> rat \<Rightarrow> number" where
  "toDouble negative m =
     (if overflowFrom \<le> m then (if negative then NegInfinity else PosInfinity)
      else if m \<le> zeroUpTo then (if negative then NegZero else Num 0)
      else Num (if negative then - m else m))"

definition digitsValue :: "jsstring \<Rightarrow> int" where
  "digitsValue ds = foldl (\<lambda>acc c. 10 * acc + uint (c - 0x30)) 0 ds"

definition scale10 :: "rat \<Rightarrow> int \<Rightarrow> rat" where
  "scale10 m e = (if 0 \<le> e then m * 10 ^ nat e else m / 10 ^ nat (- e))"

text \<open>
  The value of an ExponentPart at the front of the text, 0 when there is none:
  \<open>e\<close> or \<open>E\<close>, an optional sign, and at least one digit.
\<close>

definition exponentPart :: "jsstring \<Rightarrow> int" where
  "exponentPart s =
     (case s of
        [] \<Rightarrow> 0
      | c # rest \<Rightarrow>
          if c = 0x65 \<or> c = 0x45 then
            (case rest of
               [] \<Rightarrow> 0
             | d # r \<Rightarrow>
                 if d = 0x2D then
                   (if takeWhile isDigit r = [] then 0
                    else - digitsValue (takeWhile isDigit r))
                 else if d = 0x2B then
                   (if takeWhile isDigit r = [] then 0
                    else digitsValue (takeWhile isDigit r))
                 else
                   (if takeWhile isDigit rest = [] then 0
                    else digitsValue (takeWhile isDigit rest)))
          else 0)"

text \<open>
  The magnitude of the longest StrUnsignedDecimalLiteral at the front of the text other
  than \<open>Infinity\<close>: digits, an optional point and fraction, an optional exponent, with a
  digit before or after the point. There is none when the text begins with no such
  literal.
\<close>

definition unsignedValue :: "jsstring \<Rightarrow> rat option" where
  "unsignedValue s =
     (let intDigits = takeWhile isDigit s;
          afterInt = dropWhile isDigit s;
          hasPoint = (afterInt \<noteq> [] \<and> hd afterInt = 0x2E);
          fracDigits = (if hasPoint then takeWhile isDigit (tl afterInt) else []);
          afterFrac = (if hasPoint then dropWhile isDigit (tl afterInt) else afterInt)
      in if intDigits = [] \<and> fracDigits = [] then None
         else
           Some (scale10
             (of_int (digitsValue intDigits)
                + of_int (digitsValue fracDigits) / 10 ^ length fracDigits)
             (exponentPart afterFrac)))"

text \<open>
  \<open>parseFloat\<close>: leading white space is skipped, then the longest prefix that is a
  StrDecimalLiteral is read (a sign, then \<open>Infinity\<close> or a decimal); what follows the
  prefix is ignored, and \<open>NaN\<close> is the result when no prefix is a literal.
\<close>

definition parseFloat :: "jsstring \<Rightarrow> number" where
  "parseFloat inputString =
     (let trimmedString = dropWhile isWhiteSpace inputString;
          negative = (trimmedString \<noteq> [] \<and> hd trimmedString = 0x2D);
          signed = (trimmedString \<noteq> [] \<and> (hd trimmedString = 0x2D \<or> hd trimmedString = 0x2B));
          unsigned = (if signed then tl trimmedString else trimmedString)
      in if startsWith unsigned (js ''Infinity'')
         then (if negative then NegInfinity else PosInfinity)
         else
           (case unsignedValue unsigned of
              None \<Rightarrow> NaN
            | Some mv \<Rightarrow> toDouble negative mv))"

section \<open>The numeric normaliser\<close>

text \<open>The characters of the class \<open>[,%$\<pounds>\<euro>\<yen>]\<close> that \<open>parseNumeric\<close> deletes.\<close>

definition isStripped :: "jschar \<Rightarrow> bool" where
  "isStripped c \<longleftrightarrow>
     c = 0x2C \<or> c = 0x25 \<or> c = 0x24 \<or> c = 0xA3 \<or> c = 0x20AC \<or> c = 0xA5"

definition parseNumeric :: "jsstring \<Rightarrow> number option" where
  "parseNumeric text =
     (if text = [] \<or> trim text = [] \<or> text = js ''--'' \<or> text = js ''N/A'' then None
      else
        let cleaned = trim (filter (\<lambda>c. \<not> isStripped c) text);
            num = parseFloat cleaned
        in if isNaN num then None else Some num)"

section \<open>The rendered document\<close>

text \<open>
  The page is handed to the extractors as a tree of elements and text nodes. An element
  carries its local name, its attributes in source order and its children.
\<close>

datatype node =
    Element jsstring "(jsstring \<times> jsstring) list" "node list"
  | Text jsstring

fun textContent :: "node \<Rightarrow> jsstring" where
  "textContent (Text t) = t"
| "textContent (Element tag attrs children) = concat (map textContent children)"

text \<open>The elements of a subtree in document order, its root first.\<close>

fun elementsOf :: "node \<Rightarrow> node list" where
  "elementsOf (Text t) = []"
| "elementsOf (Element tag attrs children) =
     Element tag attrs children # concat (map elementsOf children)"

fun descendants :: "node \<Rightarrow> node list" where
  "descendants (Text t) = []"
| "descendants (Element tag attrs children) = concat (map elementsOf children)"

fun getAttribute :: "node \<Rightarrow> jsstring \<Rightarrow> jsstring option" where
  "getAttribute (Text t) a = None"
| "getAttribute (Element tag attrs children) a = map_of attrs a"

text \<open>
  The selectors of the scraper are lists of simple selectors: a type selector
  (\<open>table\<close>), a class selector (\<open>.data-table\<close>), an attribute selector with \<open>=\<close>
  (\<open>[role="row"]\<close>) or with \<open>*=\<close> (\<open>[class*="bond"]\<close>). A selector list matches an
  element when one of its members does.
\<close>

datatype selector =
    TypeSel jsstring
  | ClassSel jsstring
  | AttrEquals jsstring jsstring
  | AttrContains jsstring jsstring

fun split_by :: "('a \<Rightarrow> bool) \<Rightarrow> 'a list \<Rightarrow> 'a list list" where
  "split_by P [] = [[]]"
| "split_by P (c # cs) =
     (if P c then [] # split_by P cs
      else (case split_by P cs of [] \<Rightarrow> [[c]] | w # ws \<Rightarrow> (c # w) # ws))"

definition isAsciiWhiteSpace :: "jschar \<Rightarrow> bool" where
  "isAsciiWhiteSpace c \<longleftrightarrow> c = 0x09 \<or> c = 0x0A \<or> c = 0x0C \<or> c = 0x0D \<or> c = 0x20"

definition classList :: "jsstring \<Rightarrow> jsstring list" where
  "classList v = filter (\<lambda>w. w \<noteq> []) (split_by isAsciiWhiteSpace v)"

fun matches :: "selector \<Rightarrow> node \<Rightarrow> bool" where
  "matches (TypeSel t) (Text x) = False"
| "matches (TypeSel t) (Element tag attrs children) = (tag = t)"
| "matches (ClassSel c) n =
     (case getAttribute n (js ''class'') of
        None \<Rightarrow> False
      | Some v \<Rightarrow> List.member (classList v) c)"
| "matches (AttrEquals a v) n = (getAttribute n a = Some v)"
| "matches (AttrContains a v) n =
     (case getAttribute n a of
        None \<Rightarrow> False
      | Some w \<Rightarrow> v \<noteq> [] \<and> includes_str w v)"

definition matchesAny :: "selector list \<Rightarrow> node \<Rightarrow> bool" where
  "matchesAny sels n = list_ex (\<lambda>s. matches s n) sels"

text \<open>\<open>element.querySelectorAll\<close>: the matching descendants, in document order.\<close>

definition querySelectorAll :: "selector list \<Rightarrow> node \<Rightarrow> node list" where
  "querySelectorAll sels n = filter (matchesAny sels) (descendants n)"

text \<open>
  \<open>document.querySelectorAll\<close>: the matching elements of the whole document, given by
  the children of the document node.
\<close>

definition documentQuerySelectorAll :: "selector list \<Rightarrow> node list \<Rightarrow> node list" where
  "documentQuerySelectorAll sels roots = filter (matchesAny sels) (concat (map elementsOf roots))"

section \<open>Records and configuration\<close>

record CountryConfig =
  name :: jsstring
  url :: jsstring
  code :: jsstring

record BloombergBondData =
  country :: jsstring
  name :: jsstring
  coupon :: "number option"
  price :: "number option"
  yield :: "number option"
  oneMonth :: "number option"
  oneYear :: "number option"
  scrapedAt :: jsstring

definition COUNTRIES :: "CountryConfig list" where
  "COUNTRIES =
     [\<lparr>CountryConfig.name = js ''United States'',
       url = js ''https://www.bloomberg.com/markets/rates-bonds/government-bonds/us'',
       code = js ''US''\<rparr>,
      \<lparr>CountryConfig.name = js ''United Kingdom'',
       url = js ''https://www.bloomberg.com/markets/rates-bonds/government-bonds/uk'',
       code = js ''UK''\<rparr>,
      \<lparr>CountryConfig.name = js ''Germany'',
       url = js ''https://www.bloomberg.com/markets/rates-bonds/government-bonds/germany'',
       code = js ''DE''\<rparr>,
      \<lparr>CountryConfig.name = js ''Japan'',
       url = js ''https://www.bloomberg.com/markets/rates-bonds/government-bonds/japan'',
       code = js ''JP''\<rparr>,
      \<lparr>CountryConfig.name = js ''Australia'',
       url = js ''https://www.bloomberg.com/markets/rates-bonds/government-bonds/australia'',
       code = js ''AU''\<rparr>]"

section \<open>The page and its evaluation\<close>

text \<open>
  What the browser gives for one country: the outcome of the navigation
  (\<open>page.goto\<close>, which throws on a timeout or a network error), the outcome of the wait
  for a data container (\<open>page.waitForSelector\<close>), the rendered document, the text of
  its body (\<open>document.body.innerText\<close>) and the clock of the page: \<open>clock k\<close> is the ISO
  text of the \<open>k\<close>-th reading of \<open>new Date()\<close> during the evaluation, counted from 0.
  The document is an HTML document, which has a body. A \<open>TypeError\<close> is what the
  evaluation throws when it calls what is not a function.
\<close>

datatype error = TimeoutError | NetworkError | TypeError

record page =
  goto :: "error + unit"
  waitForSelector :: "error + unit"
  roots :: "node list"
  innerText :: jsstring
  clock :: "nat \<Rightarrow> jsstring"

text \<open>
  \<open>cells[k]?.textContent?.trim() || ''\<close>: the trimmed text of the \<open>k\<close>-th cell, the
  empty string when the row has no such cell.
\<close>

definition cellText :: "node list \<Rightarrow> nat \<Rightarrow> jsstring" where
  "cellText cells k = (if k < length cells then trim (textContent (cells ! k)) else [])"

text \<open>
  \<open>bonds.push\<close> of a record read from the cells of a row. Each push reads the clock
  once and nothing else does, so the reading has the number of the record.
\<close>

definition pushRow :: "jsstring \<Rightarrow> (nat \<Rightarrow> jsstring) \<Rightarrow> node list \<Rightarrow>
    BloombergBondData list \<Rightarrow> BloombergBondData list" where
  "pushRow countryName clk cells bonds =
     bonds @
     [\<lparr>country = countryName,
       name = cellText cells 0,
       coupon = parseNumeric (cellText cells 1),
       price = parseNumeric (cellText cells 2),
       yield = parseNumeric (cellText cells 3),
       oneMonth = parseNumeric (cellText cells 4),
       oneYear = parseNumeric (cellText cells 5),
       scrapedAt = clk (length bonds)\<rparr>]"

subsection \<open>Strategy 1: tables\<close>

definition headerMatches :: "jsstring \<Rightarrow> bool" where
  "headerMatches headerText \<longleftrightarrow>
     includes_str headerText (js ''name'') \<or> includes_str headerText (js ''security'') \<or>
     includes_str headerText (js ''bond'') \<or> includes_str headerText (js ''gilt'') \<or>
     includes_str headerText (js ''treasury'') \<or> includes_str headerText (js ''yield'') \<or>
     includes_str headerText (js ''maturity'') \<or> includes_str headerText (js ''coupon'')"

definition tableNameOk :: "jsstring \<Rightarrow> bool" where
  "tableNameOk nm \<longleftrightarrow>
     nm \<noteq> [] \<and> length nm > 1 \<and>
     \<not> includes_str (toLowerCase nm) (js ''name'') \<and>
     \<not> includes_str (toLowerCase nm) (js ''security'') \<and>
     (list_ex isDigit nm \<or> includes_str (toLowerCase nm) (js ''year'') \<or>
      includes_str (toLowerCase nm) (js ''month'') \<or>
      includes_str (toLowerCase nm) (js ''gilt'') \<or>
      includes_str (toLowerCase nm) (js ''treasury'') \<or>
      includes_str (toLowerCase nm) (js ''bond''))"

definition tableRow :: "jsstring \<Rightarrow> (nat \<Rightarrow> jsstring) \<Rightarrow> node \<Rightarrow>
    BloombergBondData list \<Rightarrow> BloombergBondData list" where
  "tableRow countryName clk row bonds =
     (let cells = querySelectorAll [TypeSel (js ''td''), TypeSel (js ''th'')] row
      in if length cells \<ge> 2 then
           (if tableNameOk (cellText cells 0) then pushRow countryName clk cells bonds
            else bonds)
         else bonds)"

definition tableScan :: "jsstring \<Rightarrow> (nat \<Rightarrow> jsstring) \<Rightarrow> node \<Rightarrow>
    BloombergBondData list \<Rightarrow> BloombergBondData list" where
  "tableScan countryName clk table bonds =
     (let rows = querySelectorAll [TypeSel (js ''tr'')] table
      in if length rows < 2 then bonds
         else if headerMatches (toLowerCase (textContent (rows ! 0)))
         then fold (tableRow countryName clk) (drop 1 rows) bonds
         else bonds)"

definition strategy1 :: "page \<Rightarrow> jsstring \<Rightarrow> BloombergBondData list \<Rightarrow> BloombergBondData list" where
  "strategy1 pg countryName bonds =
     fold (tableScan countryName (clock pg))
       (documentQuerySelectorAll [TypeSel (js ''table'')] (roots pg)) bonds"

subsection \<open>Strategy 2: the selectors of the site\<close>

definition bloombergSelectors :: "selector list" where
  "bloombergSelectors =
     [AttrEquals (js ''data-module'') (js ''DataTable''),
      ClassSel (js ''data-table''),
      ClassSel (js ''bond-table''),
      AttrContains (js ''class'') (js ''table''),
      AttrContains (js ''class'') (js ''bond''),
      AttrContains (js ''class'') (js ''security''),
      ClassSel (js ''bb-table''),
      AttrContains (js ''data-testid'') (js ''table''),
      AttrEquals (js ''role'') (js ''table''),
      ClassSel (js ''rates-table'')]"

definition rowSelectors :: "selector list" where
  "rowSelectors =
     [TypeSel (js ''tr''), ClassSel (js ''table-row''), AttrEquals (js ''role'') (js ''row'')]"

definition cellSelectors :: "selector list" where
  "cellSelectors =
     [TypeSel (js ''td''), ClassSel (js ''table-cell''), ClassSel (js ''data-cell''),
      AttrEquals (js ''role'') (js ''cell''), AttrEquals (js ''role'') (js ''gridcell'')]"

definition selectorNameOk :: "jsstring \<Rightarrow> bool" where
  "selectorNameOk nm \<longleftrightarrow> nm \<noteq> [] \<and> length nm > 2 \<and> list_ex isWordChar nm"

definition selectorRow :: "jsstring \<Rightarrow> (nat \<Rightarrow> jsstring) \<Rightarrow> node \<Rightarrow>
    BloombergBondData list \<Rightarrow> BloombergBondData list" where
  "selectorRow countryName clk row bonds =
     (let cells = querySelectorAll cellSelectors row
      in if length cells \<ge> 2 then
           (if selectorNameOk (cellText cells 0) then pushRow countryName clk cells bonds
            else bonds)
         else bonds)"

text \<open>The rows of one matched element; the callback returns at once for index 0.\<close>

definition selectorElement :: "jsstring \<Rightarrow> (nat \<Rightarrow> jsstring) \<Rightarrow> node \<Rightarrow>
    BloombergBondData list \<Rightarrow> BloombergBondData list" where
  "selectorElement countryName clk element bonds =
     fold (selectorRow countryName clk) (drop 1 (querySelectorAll rowSelectors element)) bonds"

definition selectorScan :: "page \<Rightarrow> jsstring \<Rightarrow> selector \<Rightarrow>
    BloombergBondData list \<Rightarrow> BloombergBondData list" where
  "selectorScan pg countryName sel bonds =
     fold (selectorElement countryName (clock pg))
       (documentQuerySelectorAll [sel] (roots pg)) bonds"

definition strategy2 :: "page \<Rightarrow> jsstring \<Rightarrow> BloombergBondData list \<Rightarrow> BloombergBondData list" where
  "strategy2 pg countryName bonds = fold (selectorScan pg countryName) bloombergSelectors bonds"

subsection \<open>Strategy 3: the text of the page\<close>

text \<open>
  One match of \<open>/\d+\.\d{1,4}/\<close> at the front of the text: all the digits there, a
  point, and up to four of the digits that follow it. The result is the matched text and
  what is left after it.
\<close>

definition decimalAt :: "jsstring \<Rightarrow> (jsstring \<times> jsstring) option" where
  "decimalAt s =
     (let intDigits = takeWhile isDigit s;
          afterInt = dropWhile isDigit s
      in if intDigits \<noteq> [] \<and> afterInt \<noteq> [] \<and> hd afterInt = 0x2E \<and>
            takeWhile isDigit (tl afterInt) \<noteq> []
         then
           (let fracDigits = take 4 (takeWhile isDigit (tl afterInt))
            in Some (intDigits @ 0x2E # fracDigits, drop (length fracDigits) (tl afterInt)))
         else None)"

lemma decimalAt_shorter: "decimalAt s = Some (m, r) \<Longrightarrow> length r < length s"
proof -
  assume a: "decimalAt s = Some (m, r)"
  have le: "length (dropWhile isDigit s) \<le> length s"
    by (rule length_dropWhile_le)
  from a have ne: "dropWhile isDigit s \<noteq> []"
    and r: "r = drop (length (take 4 (takeWhile isDigit (tl (dropWhile isDigit s)))))
                  (tl (dropWhile isDigit s))"
    by (auto simp: decimalAt_def Let_def split: if_splits)
  from ne have "length (tl (dropWhile isDigit s)) < length (dropWhile isDigit s)"
    by (cases "dropWhile isDigit s") auto
  with le r show ?thesis by simp
qed

text \<open>
  \<open>text.match(/\d+\.\d{1,4}/g) || []\<close>: the matches from left to right, each search
  starting where the previous match ended.
\<close>

function matchDecimals :: "jsstring \<Rightarrow> jsstring list" where
  "matchDecimals [] = []"
| "matchDecimals (c # cs) =
     (case decimalAt (c # cs) of
        Some (m, r) \<Rightarrow> m # matchDecimals r
      | None \<Rightarrow> matchDecimals cs)"
  by pat_completeness auto
termination
  by (relation "measure length") (auto dest: decimalAt_shorter)

fun joinWith :: "jsstring \<Rightarrow> jsstring list \<Rightarrow> jsstring" where
  "joinWith sep [] = []"
| "joinWith sep [x] = x"
| "joinWith sep (x # y # zs) = x @ sep @ joinWith sep (y # zs)"

text \<open>\<open>xs.slice(a, b)\<close> for indices that are not negative.\<close>

definition slice :: "nat \<Rightarrow> nat \<Rightarrow> 'a list \<Rightarrow> 'a list" where
  "slice a b xs = drop a (take b xs)"

text \<open>
  The keywords of each country, an object literal of the source indexed by the name of
  the country.
\<close>

definition bondKeywords :: "(jsstring \<times> jsstring list) list" where
  "bondKeywords =
     [(js ''United States'', [js ''treasury'', js ''bond'', js ''note'', js ''bill'']),
      (js ''United Kingdom'', [js ''gilt'', js ''treasury'', js ''bond'']),
      (js ''Germany'', [js ''bund'', js ''bobl'', js ''schatz'', js ''treasury'']),
      (js ''Japan'', [js ''bond'', js ''treasury'', js ''jgb'']),
      (js ''Australia'', [js ''bond'', js ''treasury'', js ''agb''])]"

text \<open>
  The names that every object inherits from \<open>Object.prototype\<close>. Indexed by one of
  them, the object literal gives a function (or, for \<open>__proto__\<close>, the prototype): a
  value that is truthy and is not an array.
\<close>

definition objectPrototypeKeys :: "jsstring list" where
  "objectPrototypeKeys =
     [js ''constructor'', js ''__defineGetter__'', js ''__defineSetter__'',
      js ''hasOwnProperty'', js ''__lookupGetter__'', js ''__lookupSetter__'',
      js ''isPrototypeOf'', js ''propertyIsEnumerable'', js ''toString'', js ''valueOf'',
      js ''__proto__'', js ''toLocaleString'']"

text \<open>
  \<open>bondKeywords[countryName] || ['bond', 'treasury']\<close>: the list of the country, the
  inherited value for an inherited name, the default for any other name.
\<close>

datatype keywordsValue = Keywords "jsstring list" | NotAnArray

definition keywordsFor :: "jsstring \<Rightarrow> keywordsValue" where
  "keywordsFor countryName =
     (case map_of bondKeywords countryName of
        Some ks \<Rightarrow> Keywords ks
      | None \<Rightarrow>
          if List.member objectPrototypeKeys countryName then NotAnArray
          else Keywords [js ''bond'', js ''treasury''])"

text \<open>
  \<open>parseFloat(numbers[k])\<close>: beyond the end of the array the argument is \<open>undefined\<close>,
  which \<open>parseFloat\<close> reads as the text \<open>undefined\<close>.
\<close>

definition tokenNumber :: "jsstring list \<Rightarrow> nat \<Rightarrow> number" where
  "tokenNumber numbers k =
     (if k < length numbers then parseFloat (numbers ! k) else parseFloat (js ''undefined''))"

text \<open>\<open>x || null\<close> for a number \<open>x\<close>: the two zeros and \<open>NaN\<close> are falsy.\<close>

definition orNull :: "number \<Rightarrow> number option" where
  "orNull x = (if x = Num 0 \<or> x = NegZero \<or> x = NaN then None else Some x)"

text \<open>The lines of the text of the body, trimmed, the empty ones left out.\<close>

definition pageLines :: "jsstring \<Rightarrow> jsstring list" where
  "pageLines pageText =
     filter (\<lambda>line. length line > 0) (map trim (split_by (\<lambda>c. c = 0x0A) pageText))"

text \<open>
  The step of the loop over the lines for the line of index \<open>i\<close>. The first thing it
  does is to call \<open>keywords.some\<close>, which throws when the keywords are not an array.
  The window is the line before, the line itself and the two lines after it, joined by
  spaces. The source also tests the line for a year (\<open>hasYear\<close>) and never uses the
  outcome.
\<close>

definition textLine :: "jsstring list \<Rightarrow> keywordsValue \<Rightarrow> jsstring \<Rightarrow>
    (nat \<Rightarrow> jsstring) \<Rightarrow> nat \<Rightarrow> BloombergBondData list \<Rightarrow>
    error + BloombergBondData list" where
  "textLine lines keywords countryName clk i bonds =
     (case keywords of
        NotAnArray \<Rightarrow> Inl TypeError
      | Keywords ks \<Rightarrow>
          Inr
           (let line = lines ! i;
                hasKeyword = list_ex (\<lambda>keyword. includes_str (toLowerCase line) keyword) ks;
                hasNumbers = (matchDecimals line \<noteq> []);
                hasPercent = includes_str line (js ''%'')
            in if (hasKeyword \<or> hasPercent) \<and> hasNumbers \<and> length line > 5 then
                 (let context =
                        joinWith (js '' '') (slice (nat (max 0 (int i - 1))) (i + 3) lines);
                      numbers = matchDecimals context
                  in if length numbers \<ge> 1 then
                       bonds @
                       [\<lparr>country = countryName,
                         name = line,
                         coupon = orNull (tokenNumber numbers 0),
                         price = orNull (tokenNumber numbers 1),
                         yield = orNull (tokenNumber numbers 2),
                         oneMonth = orNull (tokenNumber numbers 3),
                         oneYear = orNull (tokenNumber numbers 4),
                         scrapedAt = clk (length bonds)\<rparr>]
                     else bonds)
               else bonds))"

text \<open>A loop whose step may throw: the first throw ends it.\<close>

fun loop :: "('a \<Rightarrow> 'b \<Rightarrow> error + 'b) \<Rightarrow> 'a list \<Rightarrow> 'b \<Rightarrow> error + 'b" where
  "loop step [] acc = Inr acc"
| "loop step (x # xs) acc =
     (case step x acc of
        Inl e \<Rightarrow> Inl e
      | Inr acc' \<Rightarrow> loop step xs acc')"

definition strategy3 :: "page \<Rightarrow> jsstring \<Rightarrow> BloombergBondData list \<Rightarrow>
    error + BloombergBondData list" where
  "strategy3 pg countryName bonds =
     (let lines = pageLines (innerText pg);
          keywords = keywordsFor countryName
      in loop (textLine lines keywords countryName (clock pg)) [0..<length lines] bonds)"

subsection \<open>The evaluation in the page\<close>

text \<open>
  The function given to \<open>page.evaluate\<close>. It returns the records or throws; of what it
  writes to the console of the page, the model keeps the two lines that announce the
  second and the third strategy, in the order they are written.
\<close>

definition evaluate :: "page \<Rightarrow> jsstring \<Rightarrow>
    (error + BloombergBondData list) \<times> jsstring list" where
  "evaluate pg countryName =
     (let bonds1 = strategy1 pg countryName [];
          (bonds2, console2) =
             (if length bonds1 = 0
              then (strategy2 pg countryName bonds1, [js ''Trying Bloomberg-specific selectors...''])
              else (bonds1, []))
      in if length bonds2 = 0
         then (strategy3 pg countryName bonds2,
               console2 @ [js ''Trying enhanced text parsing...''])
         else (Inr bonds2, console2))"

section \<open>The run over the countries\<close>

text \<open>
  The body of the \<open>try\<close> of \<open>scrapeCountryBonds\<close>: the navigation, whose failure leaves
  the block; the wait for a container, whose failure is caught on the spot; the
  evaluation, whose failure leaves the block as well; its records are taken as the
  evaluation returns them, the transfer from the page to the caller being the
  browser's. The fixed wait of eight seconds between the first two has no outcome.
  Opening the page and setting its headers happen before the \<open>try\<close> and are taken to
  succeed, as is closing the page on either way out.
\<close>

definition tryBody :: "page \<Rightarrow> CountryConfig \<Rightarrow> error + BloombergBondData list" where
  "tryBody pg cfg =
     (case goto pg of
        Inl e \<Rightarrow> Inl e
      | Inr response \<Rightarrow>
          (case (case waitForSelector pg of Inl e \<Rightarrow> Inr () | Inr u \<Rightarrow> Inr u) of
             Inl e \<Rightarrow> Inl e
           | Inr u \<Rightarrow> fst (evaluate pg (CountryConfig.name cfg))))"

text \<open>
  The browser gives the page of an address. A failure inside the \<open>try\<close> is caught and
  the country has no records.
\<close>

definition scrapeCountryBonds :: "(jsstring \<Rightarrow> page) \<Rightarrow> CountryConfig \<Rightarrow> BloombergBondData list" where
  "scrapeCountryBonds browser cfg =
     (case tryBody (browser (url cfg)) cfg of
        Inl e \<Rightarrow> []
      | Inr data \<Rightarrow> data)"

text \<open>
  The loop of \<open>scrapeAllCountries\<close> over a list of countries, each one's records
  appended to those before; the pause between two countries is left out.
\<close>

definition scrapeCountries :: "(jsstring \<Rightarrow> page) \<Rightarrow> CountryConfig list \<Rightarrow> BloombergBondData list" where
  "scrapeCountries browser cs =
     fold (\<lambda>cfg allData. allData @ scrapeCountryBonds browser cfg) cs []"

definition scrapeAllCountries :: "(jsstring \<Rightarrow> page) \<Rightarrow> BloombergBondData list" where
  "scrapeAllCountries browser = scrapeCountries browser COUNTRIES"

subsection \<open>The filter of \<open>main\<close>\<close>

definition is10Year :: "BloombergBondData \<Rightarrow> bool" where
  "is10Year bond \<longleftrightarrow>
     includes_str (name bond) (js ''10 Year'') \<and>
     \<not> includes_str (toLowerCase (name bond)) (js ''muni'') \<and>
     \<not> includes_str (toLowerCase (name bond)) (js ''inflation'') \<and>
     \<not> includes_str (name bond) (js ''II'')"

definition results :: "BloombergBondData list \<Rightarrow> BloombergBondData list" where
  "results allResults = filter is10Year allResults"

definition main :: "(jsstring \<Rightarrow> page) \<Rightarrow> BloombergBondData list" where
  "main browser = results (scrapeAllCountries browser)"

section \<open>Notions of the statements\<close>

text \<open>
  The rule of the filter in the words of the specification: the name contains
  \<open>10 Year\<close>; read in lower case, it contains neither \<open>muni\<close> nor \<open>inflation\<close>;
  it does not contain \<open>II\<close>. To contain is to have as a contiguous part.
\<close>

definition tenYearSpec :: "jsstring \<Rightarrow> bool" where
  "tenYearSpec nm \<longleftrightarrow>
     sublist (js ''10 Year'') nm \<and>
     \<not> sublist (js ''muni'') (toLowerCase nm) \<and>
     \<not> sublist (js ''inflation'') (toLowerCase nm) \<and>
     \<not> sublist (js ''II'') nm"

text \<open>The five optional numeric fields of a record.\<close>

definition fieldsOf :: "BloombergBondData \<Rightarrow> number option list" where
  "fieldsOf b = [coupon b, price b, yield b, oneMonth b, oneYear b]"

definition finiteOrAbsent :: "number option \<Rightarrow> bool" where
  "finiteOrAbsent v =
     (case v of
        None \<Rightarrow> True
      | Some (Num q) \<Rightarrow> True
      | Some NegZero \<Rightarrow> True
      | Some x \<Rightarrow> False)"

definition neverNaN :: "BloombergBondData list \<Rightarrow> bool" where
  "neverNaN bonds = list_all (\<lambda>b. list_all (\<lambda>v. v \<noteq> Some NaN) (fieldsOf b)) bonds"

text \<open>
  A token of the text strategy: digits, a point and one to four digits. Its value is
  the decimal it denotes.
\<close>

definition isDecimalToken :: "jsstring \<Rightarrow> bool" where
  "isDecimalToken t \<longleftrightarrow>
     takeWhile isDigit t \<noteq> [] \<and> dropWhile isDigit t \<noteq> [] \<and>
     hd (dropWhile isDigit t) = 0x2E \<and> tl (dropWhile isDigit t) \<noteq> [] \<and>
     list_all isDigit (tl (dropWhile isDigit t)) \<and> length (tl (dropWhile isDigit t)) \<le> 4"

definition tokenValue :: "jsstring \<Rightarrow> rat" where
  "tokenValue t =
     of_int (digitsValue (takeWhile isDigit t))
     + of_int (digitsValue (tl (dropWhile isDigit t))) / 10 ^ length (tl (dropWhile isDigit t))"

section \<open>Example pages\<close>

definition cell :: "string \<Rightarrow> string \<Rightarrow> node" where
  "cell tag t = Element (js tag) [] [Text (js t)]"

text \<open>A document with the given content of its body.\<close>

definition htmlBody :: "node list \<Rightarrow> node list" where
  "htmlBody content =
     [Element (js ''html'') []
        [Element (js ''head'') [] [], Element (js ''body'') [] content]]"

text \<open>The table of the specification: a header row and one data row.\<close>

definition specTable :: node where
  "specTable =
     Element (js ''table'') []
       [Element (js ''tr'') []
          [cell ''th'' ''Name'', cell ''th'' ''Coupon'', cell ''th'' ''Price'',
           cell ''th'' ''Yield''],
        Element (js ''tr'') []
          [cell ''td'' ''US 10 Year'', cell ''td'' ''4.25%'', cell ''td'' ''98.50'',
           cell ''td'' ''4.40%'']]"

text \<open>
  A page with the same table but for the coupon cell, which reads \<open>Infinity\<close>. The
  text of the body has the rows on lines of their own and the cells set apart by tabs.
\<close>

definition infinityPage :: page where
  "infinityPage =
     \<lparr>goto = Inr (), waitForSelector = Inr (),
      roots = htmlBody
        [Element (js ''table'') []
           [Element (js ''tr'') []
              [cell ''th'' ''Name'', cell ''th'' ''Coupon'', cell ''th'' ''Price'',
               cell ''th'' ''Yield''],
            Element (js ''tr'') []
              [cell ''td'' ''US 10 Year'', cell ''td'' ''Infinity'', cell ''td'' ''98.50'',
               cell ''td'' ''4.40%'']]],
      innerText =
        joinWith [0x0A]
          [joinWith [0x09] [js ''Name'', js ''Coupon'', js ''Price'', js ''Yield''],
           joinWith [0x09] [js ''US 10 Year'', js ''Infinity'', js ''98.50'', js ''4.40%'']],
      clock = (\<lambda>k. js ''2024-01-01T00:00:00.000Z'')\<rparr>"

text \<open>
  A container without a table element: a \<open>div\<close> of class \<open>bond-table\<close> whose rows
  and cells are marked by their roles, a header row and one data row.
\<close>

definition roleRow :: "string list \<Rightarrow> node" where
  "roleRow ts =
     Element (js ''div'') [(js ''role'', js ''row'')]
       (map (\<lambda>t. Element (js ''span'') [(js ''role'', js ''cell'')] [Text (js t)]) ts)"

definition bondTableDiv :: node where
  "bondTableDiv =
     Element (js ''div'') [(js ''class'', js ''bond-table'')]
       [roleRow [''Name'', ''Coupon''], roleRow [''US 10 Year'', ''4.25'']]"

definition bondNamed :: "jsstring \<Rightarrow> BloombergBondData" where
  "bondNamed nm =
     \<lparr>country = [], name = nm, coupon = None, price = None, yield = None,
      oneMonth = None, oneYear = None, scrapedAt = []\<rparr>"

text \<open>
  A browser for which the navigation to the page of the United Kingdom times out. Every
  other address gives a page of plain text with one line about a bond; no data
  container is there, so the wait for one times out.
\<close>

definition ukDown :: "jsstring \<Rightarrow> page" where
  "ukDown address =
     \<lparr>goto = (if address = url (COUNTRIES ! 1) then Inl TimeoutError else Inr ()),
      waitForSelector = Inl TimeoutError,
      roots = htmlBody
        [Element (js ''p'') [] [Text (js ''10 Year Treasury Bond 4.25% 98.50'')]],
      innerText = js ''10 Year Treasury Bond 4.25% 98.50'',
      clock = (\<lambda>k. js ''2024-01-01T00:00:00.000Z'')\<rparr>"

section \<open>Substrings\<close>

lemma startsWith_prefix: "startsWith s p \<longleftrightarrow> prefix p s"
  by (induction s p rule: startsWith.induct) auto

lemma includes_str_sublist: "includes_str s p \<longleftrightarrow> sublist p s"
proof (induction s)
  case Nil
  then show ?case by auto
next
  case (Cons c cs)
  then show ?case
    by (simp only: includes_str.simps startsWith_prefix sublist_Cons_right)
qed

section \<open>The numeric normaliser on the examples of the specification\<close>

text \<open>
  The ends of the range of the doubles: a decimal beyond the largest double is read as
  an infinity, one below half the smallest double as a zero, with the sign kept.
\<close>

lemma parseFloat_range_examples:
  "parseFloat (js ''2e308'') = PosInfinity \<and>
   parseFloat (js ''-2e308'') = NegInfinity \<and>
   parseFloat (js ''1e308'') = Num (10 ^ 308) \<and>
   parseFloat (js ''-1e-400'') = NegZero \<and>
   parseFloat (js ''5e-324'') = Num (5 / 10 ^ 324) \<and>
   parseFloat (js ''-0'') = NegZero"
  by (intro conjI; code_simp)

text \<open>
  Claim C2. \<open>parseNumeric\<close> gives no value for the empty text, for text of white space
  only, for \<open>--\<close> and for \<open>N/A\<close>; it reads \<open>1,234.50%\<close> as 1234.5 and \<open>$98.75\<close> as 98.75,
  the comma, the percent sign and the currency glyph being deleted before the decimal
  is read (the pound, the euro and the yen sign are deleted in the same way); and it
  gives no value for \<open>abc\<close>, where nothing can be read.
\<close>

theorem parseNumeric_examples:
  "parseNumeric (js '''') = None \<and>
   parseNumeric (js ''  '') = None \<and>
   parseNumeric (js ''--'') = None \<and>
   parseNumeric (js ''N/A'') = None \<and>
   parseNumeric (js ''1,234.50%'') = Some (Num 1234.5) \<and>
   parseNumeric (js ''$98.75'') = Some (Num 98.75) \<and>
   parseNumeric (0xA3 # js ''1,000'') = Some (Num 1000) \<and>
   parseNumeric (0x20AC # js ''2.5'') = Some (Num 2.5) \<and>
   parseNumeric (0xA5 # js ''110'') = Some (Num 110) \<and>
   parseNumeric (js ''abc'') = None"
  by (intro conjI; code_simp)

section \<open>One tier for each page\<close>





section \<open>The filter of the ten-year bonds\<close>

text \<open>
  Claim C8. The filter is idempotent: applied to its own output, it gives that output
  again.
\<close>

theorem results_idempotent: "results (results xs) = results xs"
  by (simp add: results_def)

lemma is10Year_spec: "is10Year b \<longleftrightarrow> tenYearSpec (name b)"
  by (simp add: is10Year_def tenYearSpec_def includes_str_sublist)

text \<open>
  Claim C4. The filter keeps a record exactly when its name contains \<open>10 Year\<close>, does
  not contain \<open>muni\<close> or \<open>inflation\<close> in any casing and does not contain \<open>II\<close>; the
  records kept stay in the order of the input. Of the records named \<open>US 10 Year\<close>,
  \<open>US 10 Year TIPS (Inflation)\<close>, \<open>UK Muni 10 Year\<close> and \<open>US 10 Year II\<close>, only the
  first is kept.
\<close>

theorem results_rule:
  "results xs = filter (\<lambda>b. tenYearSpec (name b)) xs \<and>
   (b \<in> set (results xs) \<longleftrightarrow> b \<in> set xs \<and> tenYearSpec (name b)) \<and>
   subseq (results xs) xs \<and>
   results (map bondNamed [js ''US 10 Year'', js ''US 10 Year TIPS (Inflation)'',
      js ''UK Muni 10 Year'', js ''US 10 Year II'']) = [bondNamed (js ''US 10 Year'')]"
proof (intro conjI)
  show "results xs = filter (\<lambda>b. tenYearSpec (name b)) xs"
    unfolding results_def by (rule filter_cong) (simp_all add: is10Year_spec)
  show "b \<in> set (results xs) \<longleftrightarrow> b \<in> set xs \<and> tenYearSpec (name b)"
    by (simp add: results_def is10Year_spec)
  show "subseq (results xs) xs"
    by (simp add: results_def)
  show "results (map bondNamed [js ''US 10 Year'', js ''US 10 Year TIPS (Inflation)'',
      js ''UK Muni 10 Year'', js ''US 10 Year II'']) = [bondNamed (js ''US 10 Year'')]"
    by code_simp
qed

section \<open>The strategies on example pages\<close>

text \<open>
  Claim C3. On a document with one table whose header row is Name, Coupon, Price, Yield
  and whose data row is \<open>US 10 Year\<close>, \<open>4.25%\<close>, \<open>98.50\<close>, \<open>4.40%\<close>, the table strategy
  gives exactly one record: the name \<open>US 10 Year\<close>, the coupon 4.25, the price 98.5,
  the yield 4.4, and no value for the two rates whose cells are missing. It is the
  result of the whole evaluation, with no later strategy entered.
\<close>

theorem table_example:
  "strategy1 \<lparr>goto = g, waitForSelector = w, roots = htmlBody [specTable], innerText = t,
      clock = clk\<rparr> c [] =
     [\<lparr>country = c, name = js ''US 10 Year'', coupon = Some (Num 4.25),
       price = Some (Num 98.5), yield = Some (Num 4.4), oneMonth = None, oneYear = None,
       scrapedAt = clk 0\<rparr>] \<and>
   evaluate \<lparr>goto = g, waitForSelector = w, roots = htmlBody [specTable], innerText = t,
      clock = clk\<rparr> c =
     (Inr [\<lparr>country = c, name = js ''US 10 Year'', coupon = Some (Num 4.25),
       price = Some (Num 98.5), yield = Some (Num 4.4), oneMonth = None, oneYear = None,
       scrapedAt = clk 0\<rparr>], [])"
  by (intro conjI; code_simp)

text \<open>
  Claim C10. The selector strategy can give one row several times. The container of
  class \<open>bond-table\<close> has a single data row, and it is matched by three selectors of
  the list (\<open>.bond-table\<close>, \<open>[class*="table"]\<close>, \<open>[class*="bond"]\<close>); each match
  reads the rows of the container again, so the row is recorded three times, the copies
  differing in the reading of the clock only.
\<close>

theorem selector_duplicates:
  "drop 1 (querySelectorAll rowSelectors bondTableDiv) = [roleRow [''US 10 Year'', ''4.25'']] \<and>
   map (\<lambda>sel. length (documentQuerySelectorAll [sel] (htmlBody [bondTableDiv])))
       bloombergSelectors =
     [0, 0, 1, 1, 1, 0, 0, 0, 0, 0] \<and>
   strategy2 \<lparr>goto = g, waitForSelector = w, roots = htmlBody [bondTableDiv], innerText = t,
      clock = clk\<rparr> c [] =
     map (\<lambda>k. \<lparr>country = c, name = js ''US 10 Year'', coupon = Some (Num 4.25),
       price = None, yield = None, oneMonth = None, oneYear = None,
       scrapedAt = clk k\<rparr>) [0, 1, 2] \<and>
   fst (evaluate \<lparr>goto = g, waitForSelector = w, roots = htmlBody [bondTableDiv], innerText = t,
      clock = clk\<rparr> c) =
     Inr (map (\<lambda>k. \<lparr>country = c, name = js ''US 10 Year'', coupon = Some (Num 4.25),
       price = None, yield = None, oneMonth = None, oneYear = None,
       scrapedAt = clk k\<rparr>) [0, 1, 2])"
  by (intro conjI; code_simp)

section \<open>A navigation that fails\<close>

lemma fold_append_concat:
  "fold (\<lambda>x acc. acc @ f x) xs acc0 = acc0 @ concat (map f xs)"
  by (induction xs arbitrary: acc0) auto

lemma scrapeCountries_concat:
  "scrapeCountries browser cs = concat (map (scrapeCountryBonds browser) cs)"
  by (simp add: scrapeCountries_def fold_append_concat)

lemma concat_map_removeAll:
  "f x = [] \<Longrightarrow> concat (map f (removeAll x xs)) = concat (map f xs)"
  by (induction xs) auto

text \<open>
  Claim C7. When the navigation to the page of a country fails, the country gives the
  empty list of records and no error; the countries before and after it are scraped as
  they would be without it, and the records of the run are the records of the other
  countries, one country after the other.
\<close>

theorem navigation_failure_empty:
  assumes "goto (browser (url cfg)) = Inl e"
  shows "scrapeCountryBonds browser cfg = [] \<and>
         scrapeCountries browser (before @ cfg # after) =
           scrapeCountries browser before @ scrapeCountries browser after \<and>
         scrapeAllCountries browser =
           concat (map (scrapeCountryBonds browser) (removeAll cfg COUNTRIES))"
proof -
  from assms have empty: "scrapeCountryBonds browser cfg = []"
    by (simp add: scrapeCountryBonds_def tryBody_def)
  then show ?thesis
    by (simp add: scrapeAllCountries_def scrapeCountries_concat concat_map_removeAll)
qed

theorem navigation_failure_empty_witness:
  "goto (ukDown (url (COUNTRIES ! 1))) = Inl TimeoutError \<and>
   scrapeCountryBonds ukDown (COUNTRIES ! 1) = [] \<and>
   scrapeAllCountries ukDown =
     concat (map (scrapeCountryBonds ukDown) (removeAll (COUNTRIES ! 1) COUNTRIES)) \<and>
   map country (scrapeAllCountries ukDown) =
     [js ''United States'', js ''Germany'', js ''Japan'', js ''Australia'']"
proof -
  have g: "goto (ukDown (url (COUNTRIES ! 1))) = Inl TimeoutError"
    by (simp add: ukDown_def)
  have run: "map country (scrapeAllCountries ukDown) =
     [js ''United States'', js ''Germany'', js ''Japan'', js ''Australia'']"
    by code_simp
  from navigation_failure_empty [where browser = ukDown and cfg = "COUNTRIES ! 1"
      and e = TimeoutError and before = "[]" and after = "[]"] g run
  show ?thesis
    by simp
qed

section \<open>The numeric fields are never \<open>NaN\<close>\<close>

lemma parseNumeric_not_NaN: "parseNumeric t \<noteq> Some NaN"
  by (simp add: parseNumeric_def isNaN_def Let_def)

lemma orNull_not_NaN: "orNull x \<noteq> Some NaN"
  by (simp add: orNull_def)

lemma fold_preserves:
  "(\<And>x acc. P acc \<Longrightarrow> P (f x acc)) \<Longrightarrow> P acc0 \<Longrightarrow> P (fold f xs acc0)"
  by (induction xs arbitrary: acc0) auto

lemma neverNaN_pushRow: "neverNaN bonds \<Longrightarrow> neverNaN (pushRow c clk cells bonds)"
  by (simp add: neverNaN_def pushRow_def fieldsOf_def parseNumeric_not_NaN)

lemma neverNaN_tableRow: "neverNaN bonds \<Longrightarrow> neverNaN (tableRow c clk row bonds)"
  by (simp add: tableRow_def Let_def neverNaN_pushRow)

lemma neverNaN_tableScan: "neverNaN bonds \<Longrightarrow> neverNaN (tableScan c clk table bonds)"
  by (simp add: tableScan_def Let_def fold_preserves neverNaN_tableRow)

lemma neverNaN_strategy1: "neverNaN bonds \<Longrightarrow> neverNaN (strategy1 pg c bonds)"
  by (simp add: strategy1_def fold_preserves neverNaN_tableScan)

lemma neverNaN_selectorRow: "neverNaN bonds \<Longrightarrow> neverNaN (selectorRow c clk row bonds)"
  by (simp add: selectorRow_def Let_def neverNaN_pushRow)

lemma neverNaN_selectorElement:
  "neverNaN bonds \<Longrightarrow> neverNaN (selectorElement c clk el bonds)"
  by (simp add: selectorElement_def fold_preserves neverNaN_selectorRow)

lemma neverNaN_selectorScan: "neverNaN bonds \<Longrightarrow> neverNaN (selectorScan pg c sel bonds)"
  by (simp add: selectorScan_def fold_preserves neverNaN_selectorElement)

lemma neverNaN_strategy2: "neverNaN bonds \<Longrightarrow> neverNaN (strategy2 pg c bonds)"
  by (simp add: strategy2_def fold_preserves neverNaN_selectorScan)

lemma neverNaN_textLine:
  "textLine ls ks c clk i bonds = Inr bonds' \<Longrightarrow> neverNaN bonds \<Longrightarrow> neverNaN bonds'"
  by (cases ks)
    (auto simp: textLine_def Let_def neverNaN_def fieldsOf_def orNull_not_NaN
      split: if_splits)

lemma loop_preserves:
  assumes "\<And>x acc acc'. step x acc = Inr acc' \<Longrightarrow> P acc \<Longrightarrow> P acc'"
  shows "P acc0 \<Longrightarrow> loop step xs acc0 = Inr r \<Longrightarrow> P r"
proof (induction xs arbitrary: acc0)
  case Nil
  then show ?case by simp
next
  case (Cons x xs)
  then show ?case
    by (auto split: sum.splits dest: assms)
qed

lemma neverNaN_strategy3:
  "strategy3 pg c bonds = Inr bonds' \<Longrightarrow> neverNaN bonds \<Longrightarrow> neverNaN bonds'"
  unfolding strategy3_def Let_def
  by (rule loop_preserves [where P = neverNaN]) (auto dest: neverNaN_textLine)

lemma neverNaN_evaluate: "fst (evaluate pg c) = Inr bonds \<Longrightarrow> neverNaN bonds"
proof -
  assume a: "fst (evaluate pg c) = Inr bonds"
  have e: "neverNaN []"
    by (simp add: neverNaN_def)
  show ?thesis
  proof (cases "strategy1 pg c [] = []")
    case False
    with a have "bonds = strategy1 pg c []"
      by (simp add: evaluate_def Let_def)
    with e show ?thesis
      by (simp add: neverNaN_strategy1)
  next
    case s1: True
    show ?thesis
    proof (cases "strategy2 pg c [] = []")
      case False
      with a s1 have "bonds = strategy2 pg c []"
        by (simp add: evaluate_def Let_def)
      with e show ?thesis
        by (simp add: neverNaN_strategy2)
    next
      case True
      with a s1 have "strategy3 pg c [] = Inr bonds"
        by (simp add: evaluate_def Let_def)
      then show ?thesis
        using e by (rule neverNaN_strategy3)
    qed
  qed
qed

text \<open>
  Claim C6, as stated: every numeric field of every record is a finite number or
  absent. It fails on a table whose coupon cell reads \<open>Infinity\<close>: \<open>parseFloat\<close> reads
  the word as the infinite number, which is not \<open>NaN\<close>, and \<open>parseNumeric\<close> lets
  through whatever is not \<open>NaN\<close>.
\<close>

theorem infinity_field:
  "fst (evaluate infinityPage (js ''United States'')) =
     Inr (strategy1 infinityPage (js ''United States'') []) \<and>
   map coupon (strategy1 infinityPage (js ''United States'') []) = [Some PosInfinity] \<and>
   \<not> list_all (\<lambda>b. list_all finiteOrAbsent (fieldsOf b))
       (strategy1 infinityPage (js ''United States'') [])"
  by (intro conjI; code_simp)

text \<open>
  Claim C6, amended: for every page and country, no numeric field of a record of any
  of the three strategies, nor of the evaluation as a whole, nor of what the country
  gives to the run, is \<open>NaN\<close>; a field is absent or a number, which is finite or, where
  the text spells it, infinite.
\<close>

theorem fields_never_NaN:
  "neverNaN (strategy1 pg c []) \<and> neverNaN (strategy2 pg c []) \<and>
   (case strategy3 pg c [] of Inl e \<Rightarrow> True | Inr bonds \<Rightarrow> neverNaN bonds) \<and>
   (case fst (evaluate pg c) of Inl e \<Rightarrow> True | Inr bonds \<Rightarrow> neverNaN bonds) \<and>
   neverNaN (scrapeCountryBonds browser cfg)"
proof -
  have e: "neverNaN []"
    by (simp add: neverNaN_def)
  have s3: "case strategy3 pg c [] of Inl e \<Rightarrow> True | Inr bonds \<Rightarrow> neverNaN bonds"
    using e by (auto split: sum.splits dest: neverNaN_strategy3)
  have ev: "case fst (evaluate pg c) of Inl e \<Rightarrow> True | Inr bonds \<Rightarrow> neverNaN bonds"
    for pg c
    by (auto split: sum.splits dest: neverNaN_evaluate)
  have run: "neverNaN (scrapeCountryBonds browser cfg)"
    using e ev [of "browser (url cfg)" "CountryConfig.name cfg"]
    by (auto simp: scrapeCountryBonds_def tryBody_def split: sum.splits)
  from e s3 ev run show ?thesis
    by (simp add: neverNaN_strategy1 neverNaN_strategy2)
qed

section \<open>A decimal at the front of the text\<close>

lemma digit_not_space: "isDigit c \<Longrightarrow> \<not> isWhiteSpace c"
proof
  assume d: "isDigit c" and w: "isWhiteSpace c"
  from d have le: "c \<le> 0x39" and ge: "0x30 \<le> c"
    by (simp_all add: isDigit_def)
  have far: "\<not> 0x2000 \<le> c"
  proof
    assume big: "0x2000 \<le> c"
    from big le have "(0x2000 :: 16 word) \<le> 0x39"
      by (rule order_trans)
    then show False by simp
  qed
  from w far ge le show False
    by (auto simp: isWhiteSpace_def)
qed

lemma digit_facts:
  assumes "isDigit c"
  shows "\<not> isWhiteSpace c" "\<not> isStripped c" "c \<noteq> 0x2D" "c \<noteq> 0x2B" "c \<noteq> 0x49" "c \<noteq> 0x2E"
    "c \<noteq> 0x4E"
  using assms digit_not_space [of c] by (auto simp: isDigit_def isStripped_def)

lemma point_facts: "\<not> isWhiteSpace 0x2E" "\<not> isStripped 0x2E" "\<not> isDigit 0x2E"
  by (simp_all add: isWhiteSpace_def isStripped_def isDigit_def)

lemma takeWhile_no_digit: "list_all (\<lambda>c. \<not> isDigit c) r \<Longrightarrow> takeWhile isDigit r = []"
  by (cases r) auto

lemma dropWhile_no_digit: "list_all (\<lambda>c. \<not> isDigit c) r \<Longrightarrow> dropWhile isDigit r = r"
  by (cases r) auto

lemma takeWhile_digits:
  "list_all isDigit ds \<Longrightarrow> takeWhile isDigit r = [] \<Longrightarrow> takeWhile isDigit (ds @ r) = ds"
  by (induction ds) auto

lemma dropWhile_digits:
  "list_all isDigit ds \<Longrightarrow> dropWhile isDigit (ds @ r) = dropWhile isDigit r"
  by (induction ds) auto

lemma exponentPart_no_digit: "list_all (\<lambda>c. \<not> isDigit c) r \<Longrightarrow> exponentPart r = 0"
  by (auto simp: exponentPart_def takeWhile_no_digit split: list.splits)

lemma unsignedValue_point:
  assumes ip: "list_all isDigit ip"
    and fp: "list_all isDigit fp"
    and some: "ip @ fp \<noteq> []"
    and r: "list_all (\<lambda>c. \<not> isDigit c) r"
  shows "unsignedValue (ip @ 0x2E # fp @ r) =
           Some (of_int (digitsValue ip) + of_int (digitsValue fp) / 10 ^ length fp)"
proof -
  let ?s = "ip @ 0x2E # fp @ r"
  have tw: "takeWhile isDigit ?s = ip"
    using ip by (simp add: takeWhile_digits point_facts)
  have dw: "dropWhile isDigit ?s = 0x2E # fp @ r"
    using ip by (simp add: dropWhile_digits point_facts)
  have tf: "takeWhile isDigit (fp @ r) = fp"
    using fp r by (simp add: takeWhile_digits takeWhile_no_digit)
  have df: "dropWhile isDigit (fp @ r) = r"
    using fp r by (simp add: dropWhile_digits dropWhile_no_digit)
  show ?thesis
    unfolding unsignedValue_def Let_def tw dw
    using some
    by (simp add: tf df exponentPart_no_digit [OF r] scale10_def)
qed

lemma unsignedValue_int:
  assumes ip: "ip \<noteq> []" "list_all isDigit ip"
    and r: "list_all (\<lambda>c. \<not> isDigit c) r"
  shows "unsignedValue (ip @ r) = Some (of_int (digitsValue ip))"
proof (cases "r \<noteq> [] \<and> hd r = 0x2E")
  case True
  then obtain r' where r': "r = 0x2E # r'"
    by (cases r) auto
  with r have "list_all (\<lambda>c. \<not> isDigit c) r'"
    by simp
  from unsignedValue_point [OF ip(2) _ _ this, of "[]"] ip(1) show ?thesis
    by (simp add: r' digitsValue_def)
next
  case False
  have tw: "takeWhile isDigit (ip @ r) = ip"
    using ip r by (simp add: takeWhile_digits takeWhile_no_digit)
  have dw: "dropWhile isDigit (ip @ r) = r"
    using ip r by (simp add: dropWhile_digits dropWhile_no_digit)
  have np: "(r \<noteq> [] \<and> hd r = 0x2E) = False"
    using False by simp
  show ?thesis
    unfolding unsignedValue_def Let_def tw dw np
    using ip(1)
    by (simp add: exponentPart_no_digit [OF r] scale10_def digitsValue_def)
qed

lemma unsignedValue_decimal:
  assumes ip: "list_all isDigit ip"
    and fp: "list_all isDigit fp"
    and some: "ip @ fp \<noteq> []"
    and dot: "dot = js ''.'' \<or> (dot = [] \<and> fp = [])"
    and r: "list_all (\<lambda>c. \<not> isDigit c) rest"
  shows "unsignedValue (ip @ dot @ fp @ rest) =
           Some (of_int (digitsValue ip) + of_int (digitsValue fp) / 10 ^ length fp)"
proof (cases "dot = []")
  case True
  with dot have "fp = []"
    by (auto simp: js_def)
  with True some unsignedValue_int [OF _ ip r] show ?thesis
    by (simp add: digitsValue_def)
next
  case False
  with dot have "dot = [0x2E]"
    by (auto simp: js_def)
  with unsignedValue_point [OF ip fp some r] show ?thesis
    by simp
qed

lemma parseFloat_signed:
  assumes sign: "sg = [] \<or> sg = js ''-'' \<or> sg = js ''+''"
    and u: "u \<noteq> []" "isDigit (hd u) \<or> hd u = 0x2E"
  shows "parseFloat (sg @ u) =
           (case unsignedValue u of
              None \<Rightarrow> NaN
            | Some mv \<Rightarrow> toDouble (sg = js ''-'') mv)"
proof -
  from u obtain x xs where x: "u = x # xs" "isDigit x \<or> x = 0x2E"
    by (cases u) auto
  then have facts: "\<not> isWhiteSpace x" "x \<noteq> 0x2D" "x \<noteq> 0x2B" "x \<noteq> 0x49"
    by (auto simp: digit_facts point_facts isDigit_def)
  have sp: "\<not> isWhiteSpace 0x2D" "\<not> isWhiteSpace 0x2B"
    by (simp_all add: isWhiteSpace_def)
  from sign consider "sg = []" | "sg = [0x2D]" | "sg = [0x2B]"
    by (auto simp: js_def)
  then show ?thesis
  proof cases
    case 1
    show ?thesis
      unfolding 1 parseFloat_def Let_def x
      using facts by (simp add: js_def split: option.splits)
  next
    case 2
    show ?thesis
      unfolding 2 parseFloat_def Let_def x
      using facts sp by (simp add: js_def split: option.splits)
  next
    case 3
    show ?thesis
      unfolding 3 parseFloat_def Let_def x
      using facts sp by (simp add: js_def split: option.splits)
  qed
qed

lemma parseFloat_decimal:
  assumes sign: "sg = [] \<or> sg = js ''-'' \<or> sg = js ''+''"
    and ip: "list_all isDigit ip"
    and fp: "list_all isDigit fp"
    and some: "ip @ fp \<noteq> []"
    and dot: "dot = js ''.'' \<or> (dot = [] \<and> fp = [])"
    and r: "list_all (\<lambda>c. \<not> isDigit c) rest"
  shows "parseFloat (sg @ ip @ dot @ fp @ rest) =
           toDouble (sg = js ''-'')
             (of_int (digitsValue ip) + of_int (digitsValue fp) / 10 ^ length fp)"
proof -
  let ?u = "ip @ dot @ fp @ rest"
  have front: "?u \<noteq> [] \<and> (isDigit (hd ?u) \<or> hd ?u = 0x2E)"
  proof (cases ip)
    case Nil
    with some dot have "dot = [0x2E]"
      by (auto simp: js_def)
    with Nil show ?thesis
      by simp
  next
    case (Cons d ds)
    with ip show ?thesis
      by simp
  qed
  then have "parseFloat (sg @ ?u) =
      (case unsignedValue ?u of None \<Rightarrow> NaN | Some mv \<Rightarrow> toDouble (sg = js ''-'') mv)"
    using parseFloat_signed [OF sign, of ?u] by blast
  then show ?thesis
    by (simp add: unsignedValue_decimal [OF ip fp some dot r])
qed

lemma toDouble_not_NaN: "toDouble negative m \<noteq> NaN"
  by (simp add: toDouble_def)

lemma in_dropWhile: "x \<in> set s \<Longrightarrow> \<not> P x \<Longrightarrow> x \<in> set (dropWhile P s)"
  by (induction s) auto

lemma in_trim: "x \<in> set s \<Longrightarrow> \<not> isWhiteSpace x \<Longrightarrow> x \<in> set (trim s)"
  by (simp add: trim_def in_dropWhile)

lemma trim_subset: "set (trim s) \<subseteq> set s"
proof -
  have "set (trim s) = set (dropWhile isWhiteSpace (rev (dropWhile isWhiteSpace s)))"
    by (simp add: trim_def)
  also have "\<dots> \<subseteq> set (rev (dropWhile isWhiteSpace s))"
    by (auto dest: set_dropWhileD)
  also have "\<dots> \<subseteq> set s"
    by (auto dest: set_dropWhileD)
  finally show ?thesis .
qed

text \<open>
  Claim C9. \<open>parseNumeric\<close> gives a value to texts that are not numbers. Take any text
  that, once the commas, percent signs and currency glyphs are deleted and the ends
  trimmed, begins with a decimal (an optional sign, digits, an optional point and
  digits, with a digit on one side of the point at least) and goes on with any
  characters that are not digits (letters, spaces, signs). It is read as the decimal at
  its front, whatever follows: \<open>4.25 bps\<close> is read as 4.25.
\<close>

theorem parseNumeric_reads_prefix:
  assumes cleaned: "trim (filter (\<lambda>c. \<not> isStripped c) text) = sg @ ip @ dot @ fp @ rest"
    and sign: "sg = [] \<or> sg = js ''-'' \<or> sg = js ''+''"
    and ip: "list_all isDigit ip"
    and fp: "list_all isDigit fp"
    and some: "ip @ fp \<noteq> []"
    and dot: "dot = js ''.'' \<or> (dot = [] \<and> fp = [])"
    and rest: "list_all (\<lambda>c. \<not> isDigit c) rest"
  shows "parseNumeric text =
           Some (toDouble (sg = js ''-'')
             (of_int (digitsValue ip) + of_int (digitsValue fp) / 10 ^ length fp))"
proof -
  let ?cleaned = "trim (filter (\<lambda>c. \<not> isStripped c) text)"
  from some obtain d where d: "d \<in> set (ip @ fp)"
    by (cases "ip @ fp") auto
  with ip fp have digit: "isDigit d"
    by (auto simp: list_all_iff)
  from d have "d \<in> set ?cleaned"
    unfolding cleaned by auto
  with trim_subset have "d \<in> set (filter (\<lambda>c. \<not> isStripped c) text)"
    by blast
  then have dt: "d \<in> set text"
    by simp
  from dt digit have t1: "trim text \<noteq> []"
    using in_trim [of d "text"] by (auto simp: digit_facts)
  from dt have t0: "text \<noteq> []"
    by auto
  have t2: "text \<noteq> js ''--''"
  proof
    assume "text = js ''--''"
    with dt have "d = 0x2D"
      by (simp add: js_def)
    with digit show False
      by (simp add: isDigit_def)
  qed
  have t3: "text \<noteq> js ''N/A''"
  proof
    assume "text = js ''N/A''"
    with dt have "d = 0x4E \<or> d = 0x2F \<or> d = 0x41"
      by (auto simp: js_def)
    with digit show False
      by (auto simp: isDigit_def)
  qed
  have pf: "parseFloat ?cleaned =
      toDouble (sg = js ''-'')
        (of_int (digitsValue ip) + of_int (digitsValue fp) / 10 ^ length fp)"
    unfolding cleaned by (rule parseFloat_decimal [OF sign ip fp some dot rest])
  show ?thesis
    unfolding parseNumeric_def Let_def pf
    using t0 t1 t2 t3 by (simp add: isNaN_def toDouble_not_NaN)
qed

theorem parseNumeric_reads_prefix_witness:
  "parseNumeric (js ''4.25 bps'') = Some (Num 4.25) \<and>
   parseNumeric (js '' -$1,234.50% bps '') = Some (Num (- 1234.5)) \<and>
   parseNumeric (js ''7 bps'') = Some (Num 7) \<and>
   parseNumeric (js ''-0.0 bps'') = Some NegZero \<and>
   parseNumeric (js (replicate 310 CHR ''9'') @ js '' bps'') = Some PosInfinity"
proof (intro conjI)
  have c1: "trim (filter (\<lambda>c. \<not> isStripped c) (js ''4.25 bps'')) =
      [] @ js ''4'' @ js ''.'' @ js ''25'' @ js '' bps''"
    by code_simp
  show "parseNumeric (js ''4.25 bps'') = Some (Num 4.25)"
    using parseNumeric_reads_prefix [OF c1]
    by (simp add: js_def isDigit_def digitsValue_def toDouble_def overflowFrom_def
        zeroUpTo_def)
  have c2: "trim (filter (\<lambda>c. \<not> isStripped c) (js '' -$1,234.50% bps '')) =
      js ''-'' @ js ''1234'' @ js ''.'' @ js ''50'' @ js '' bps''"
    by code_simp
  show "parseNumeric (js '' -$1,234.50% bps '') = Some (Num (- 1234.5))"
    using parseNumeric_reads_prefix [OF c2]
    by (simp add: js_def isDigit_def digitsValue_def toDouble_def overflowFrom_def
        zeroUpTo_def)
  have c3: "trim (filter (\<lambda>c. \<not> isStripped c) (js ''7 bps'')) =
      [] @ js ''7'' @ [] @ [] @ js '' bps''"
    by code_simp
  show "parseNumeric (js ''7 bps'') = Some (Num 7)"
    using parseNumeric_reads_prefix [OF c3]
    by (simp add: js_def isDigit_def digitsValue_def toDouble_def overflowFrom_def
        zeroUpTo_def)
  have c4: "trim (filter (\<lambda>c. \<not> isStripped c) (js ''-0.0 bps'')) =
      js ''-'' @ js ''0'' @ js ''.'' @ js ''0'' @ js '' bps''"
    by code_simp
  show "parseNumeric (js ''-0.0 bps'') = Some NegZero"
    using parseNumeric_reads_prefix [OF c4]
    by (simp add: js_def isDigit_def digitsValue_def toDouble_def overflowFrom_def
        zeroUpTo_def)
  have c5: "trim (filter (\<lambda>c. \<not> isStripped c) (js (replicate 310 CHR ''9'') @ js '' bps'')) =
      [] @ js (replicate 310 CHR ''9'') @ [] @ [] @ js '' bps''"
    by code_simp
  have d5: "list_all isDigit (js (replicate 310 CHR ''9''))"
    by code_simp
  have n5: "js (replicate 310 CHR ''9'') @ [] \<noteq> []"
    by code_simp
  have r5: "list_all (\<lambda>c. \<not> isDigit c) (js '' bps'')"
    by code_simp
  have v5: "toDouble ([] = js ''-'')
      (of_int (digitsValue (js (replicate 310 CHR ''9'')))
        + of_int (digitsValue []) / 10 ^ length ([] :: jsstring)) = PosInfinity"
    by code_simp
  show "parseNumeric (js (replicate 310 CHR ''9'') @ js '' bps'') = Some PosInfinity"
    using parseNumeric_reads_prefix [OF c5 _ d5 _ n5 _ r5] v5
    by simp
qed

section \<open>The tokens of the text strategy\<close>

lemma takeWhile_all_digits: "list_all isDigit (takeWhile isDigit s)"
  by (induction s) auto

lemma decimalAt_token: "decimalAt s = Some (m, r) \<Longrightarrow> isDecimalToken m"
proof -
  assume a: "decimalAt s = Some (m, r)"
  let ?ip = "takeWhile isDigit s"
  let ?fp = "take 4 (takeWhile isDigit (tl (dropWhile isDigit s)))"
  from a have m: "m = ?ip @ 0x2E # ?fp" and ip: "?ip \<noteq> []"
    and fr: "takeWhile isDigit (tl (dropWhile isDigit s)) \<noteq> []"
    by (auto simp: decimalAt_def Let_def split: if_splits)
  have fp: "list_all isDigit ?fp"
    using takeWhile_all_digits [of "tl (dropWhile isDigit s)"]
    by (auto simp: list_all_iff dest: in_set_takeD)
  from fr have ne: "?fp \<noteq> []"
    by (cases "takeWhile isDigit (tl (dropWhile isDigit s))") auto
  have tw: "takeWhile isDigit m = ?ip"
    unfolding m by (rule takeWhile_digits) (simp_all add: takeWhile_all_digits point_facts)
  have dw: "dropWhile isDigit m = 0x2E # ?fp"
    unfolding m by (simp add: dropWhile_digits takeWhile_all_digits point_facts)
  show ?thesis
    unfolding isDecimalToken_def tw dw using ip fp ne by simp
qed

lemma matchDecimals_tokens: "list_all isDecimalToken (matchDecimals s)"
proof (induction s rule: matchDecimals.induct)
  case 1
  then show ?case by simp
next
  case (2 c cs)
  then show ?case
    by (auto split: option.splits dest: decimalAt_token)
qed

lemma parseFloat_token:
  assumes "isDecimalToken t"
  shows "parseFloat t = toDouble False (tokenValue t)"
proof -
  let ?ip = "takeWhile isDigit t"
  from assms obtain fp where dw: "dropWhile isDigit t = 0x2E # fp" and fp: "list_all isDigit fp"
    by (cases "dropWhile isDigit t") (auto simp: isDecimalToken_def)
  from assms have ip: "?ip \<noteq> []"
    by (simp add: isDecimalToken_def)
  have whole: "[] @ ?ip @ js ''.'' @ fp @ [] = t"
    using takeWhile_dropWhile_id [of isDigit t] by (simp add: dw js_def)
  have "parseFloat ([] @ ?ip @ js ''.'' @ fp @ []) =
      toDouble ([] = js ''-'')
        (of_int (digitsValue ?ip) + of_int (digitsValue fp) / 10 ^ length fp)"
    by (rule parseFloat_decimal) (simp_all add: ip fp takeWhile_all_digits)
  then show ?thesis
    unfolding whole tokenValue_def dw by (simp add: js_def)
qed

lemma digits_nonneg: "0 \<le> acc \<Longrightarrow> 0 \<le> foldl (\<lambda>acc c. 10 * acc + uint (c - 0x30)) acc ds"
  for ds :: jsstring
  by (induction ds arbitrary: acc) simp_all

lemma digitsValue_nonneg: "0 \<le> digitsValue ds"
  by (simp add: digitsValue_def digits_nonneg)

lemma tokenValue_bound:
  assumes "isDecimalToken t" "tokenValue t \<noteq> 0"
  shows "1 / 10 ^ 4 \<le> tokenValue t"
proof -
  let ?a = "digitsValue (takeWhile isDigit t)"
  let ?b = "digitsValue (tl (dropWhile isDigit t))"
  let ?n = "length (tl (dropWhile isDigit t))"
  from assms(1) have n: "?n \<le> 4"
    by (simp add: isDecimalToken_def)
  then have "(10::rat) ^ ?n \<le> 10 ^ 4"
    by (intro power_increasing) simp_all
  then have small: "(1::rat) / 10 ^ 4 \<le> 1 / 10 ^ ?n"
    by (intro divide_left_mono) simp_all
  have b0: "0 \<le> ?b" and a0: "0 \<le> ?a"
    by (rule digitsValue_nonneg)+
  from b0 have frac: "(0::rat) \<le> of_int ?b / 10 ^ ?n"
    by simp
  show ?thesis
  proof (cases "?a = 0")
    case True
    with assms(2) have "?b \<noteq> 0"
      by (auto simp: tokenValue_def)
    with b0 have "1 \<le> ?b"
      by simp
    then have "(1::rat) \<le> of_int ?b"
      by simp
    then have "(1::rat) / 10 ^ ?n \<le> of_int ?b / 10 ^ ?n"
      by (intro divide_right_mono) simp_all
    with small have "(1::rat) / 10 ^ 4 \<le> of_int ?b / 10 ^ ?n"
      by (rule order_trans)
    moreover have "tokenValue t = of_int ?b / 10 ^ ?n"
      unfolding tokenValue_def True by simp
    ultimately show ?thesis
      by (simp only:)
  next
    case False
    with a0 have "1 \<le> ?a"
      by simp
    then have "(1::rat) \<le> of_int ?a"
      by simp
    with frac have "(1::rat) \<le> tokenValue t"
      unfolding tokenValue_def by linarith
    then show ?thesis
      by simp
  qed
qed

lemma orNull_token:
  assumes "isDecimalToken t"
  shows "orNull (toDouble False (tokenValue t)) =
           (if tokenValue t \<noteq> 0 then Some (toDouble False (tokenValue t)) else None)"
proof (cases "tokenValue t = 0")
  case True
  then show ?thesis
    by (simp add: orNull_def toDouble_def overflowFrom_def zeroUpTo_def)
next
  case False
  from tokenValue_bound [OF assms False] have "\<not> tokenValue t \<le> zeroUpTo"
    by (simp add: zeroUpTo_def)
  with False show ?thesis
    by (simp add: orNull_def toDouble_def)
qed

lemma parseFloat_undefined: "parseFloat (js ''undefined'') = NaN"
  by code_simp

text \<open>
  What the text strategy does with the tokens of a window: the field at a position has
  the value of the token at that position, unless there is no such token or its value is
  zero; then the field has no value.
\<close>

lemma token_field_rule:
  "orNull (tokenNumber (matchDecimals window) k) =
     (if k < length (matchDecimals window) \<and> tokenValue (matchDecimals window ! k) \<noteq> 0
      then Some (toDouble False (tokenValue (matchDecimals window ! k)))
      else None)"
proof (cases "k < length (matchDecimals window)")
  case True
  then have tok: "isDecimalToken (matchDecimals window ! k)"
    using matchDecimals_tokens [of window] by (simp add: list_all_length)
  with True show ?thesis
    by (simp add: tokenNumber_def parseFloat_token orNull_token)
next
  case False
  then show ?thesis
    by (simp add: tokenNumber_def orNull_def parseFloat_undefined)
qed

text \<open>
  Claim C5. The tokens of the window are given to the coupon, the price, the yield and
  the two rates by position, and a field is without value only when the window has too
  few tokens. The code departs from this where a token has the value zero: on the line
  \<open>Bond 0.00% 99.80\<close> the window has the tokens \<open>0.00\<close> and \<open>99.80\<close>, the price is
  the second token, and the coupon, whose token is there, has no value.
\<close>

theorem zero_token_absent:
  "matchDecimals (js ''Bond 0.00% 99.80'') = [js ''0.00'', js ''99.80''] \<and>
   fst (evaluate \<lparr>goto = g, waitForSelector = w, roots = htmlBody [Text (js ''Bond 0.00% 99.80'')],
      innerText = js ''Bond 0.00% 99.80'', clock = clk\<rparr> (js ''United States'')) =
     Inr [\<lparr>country = js ''United States'', name = js ''Bond 0.00% 99.80'', coupon = None,
       price = Some (Num 99.8), yield = None, oneMonth = None, oneYear = None,
       scrapedAt = clk 0\<rparr>]"
  by (intro conjI; code_simp)

end
